theory Spec2Isabelle
  imports Complex_Main "HOL-Library.Sublist"
begin

section \<open>Conventions of the embedding\<close>

text \<open>
  The development embeds the tool handlers of the OpenRouter MCP server
  (\<^verbatim>\<open>src/tool-handlers/*.ts\<close>) as HOL functions. The model cache they call
  (\<^verbatim>\<open>model-cache.ts\<close>) is not among the sources; it is modelled from its specification, in a
  section of its own.

  \<^item> A JavaScript string is a \<^typ>\<open>string\<close>, the list of its code units; its \<^verbatim>\<open>length\<close> is
    the length of the list. A \<^typ>\<open>char\<close> is a code unit below 256 (Latin-1): strings with
    other code units are outside the embedding.
  \<^item> An optional field (\<^verbatim>\<open>f?: T\<close>) is a \<^typ>\<open>'a option\<close>; \<^verbatim>\<open>undefined\<close> is \<^term>\<open>None\<close>.
  \<^item> An awaited call that may throw is an \<open>Outcome\<close>: the value returned, or the
    exception caught by the handler's \<^verbatim>\<open>catch\<close> block.
  \<^item> A JavaScript number that arrives in a request is a \<^typ>\<open>real\<close> (no NaN or infinity:
    none can come from JSON); a count or an integer-valued field is a \<^typ>\<open>nat\<close> or an
    \<^typ>\<open>int\<close>; what \<^verbatim>\<open>parseFloat\<close> returns is a \<open>ParsedNumber\<close>, which has NaN and the
    infinities.
  \<^item> \<^verbatim>\<open>Date.now()\<close> is an argument \<open>now\<close> (milliseconds, a natural number).
  \<^item> \<^verbatim>\<open>JSON.stringify(response, null, 2)\<close> is kept as the response object itself, under a
    constructor of the payload type: the rendering as text is not modelled.
  \<^item> \<^verbatim>\<open>console.error\<close> and \<^verbatim>\<open>console.warn\<close> output is not modelled.
\<close>

section \<open>Chat messages and truncation (chat-completion.ts)\<close>

text \<open>
  A message's \<^verbatim>\<open>content\<close> is a string, an array of content parts, or missing
  (\<^verbatim>\<open>null\<close>/\<^verbatim>\<open>undefined\<close>).
\<close>

datatype MessageContent = Str string | Parts "string list" | NoContent

record ChatCompletionMessageParam =
  role :: string
  content :: MessageContent

datatype JsError = TypeError

text \<open>\<^verbatim>\<open>Math.ceil(text.length / 4)\<close>, as a function of \<^verbatim>\<open>text.length\<close>.\<close>

definition estimateTokenCount :: "nat \<Rightarrow> nat" where
  "estimateTokenCount len = (len + 3) div 4"

text \<open>
  \<^verbatim>\<open>(messages[0].content as string).length\<close>: the cast does nothing at run time, so an array
  gives its number of parts, and a missing content throws a TypeError.
\<close>

fun contentLength :: "MessageContent \<Rightarrow> JsError + nat" where
  "contentLength (Str s) = Inr (length s)"
| "contentLength (Parts ps) = Inr (length ps)"
| "contentLength NoContent = Inl TypeError"

text \<open>\<^verbatim>\<open>typeof messageContent === 'string' ? messageContent : ''\<close>\<close>

fun contentString :: "MessageContent \<Rightarrow> string" where
  "contentString (Str s) = s"
| "contentString (Parts ps) = []"
| "contentString NoContent = []"

text \<open>\<^verbatim>\<open>messages[0]?.role === 'system'\<close>\<close>

definition firstIsSystem :: "ChatCompletionMessageParam list \<Rightarrow> bool" where
  "firstIsSystem messages =
     (case messages of [] \<Rightarrow> False | m # _ \<Rightarrow> role m = ''system'')"

text \<open>
  The loop \<^verbatim>\<open>for (let i = messages.length - 1; i >= 0; i--)\<close>. The third argument is
  \<open>i + 1\<close>: \<open>0\<close> means the loop has run past index 0. \<^verbatim>\<open>continue\<close> goes on with the
  next index, \<^verbatim>\<open>break\<close> returns what has been collected, \<^verbatim>\<open>unshift\<close> puts the
  message in front.
\<close>

fun fitLoop ::
  "ChatCompletionMessageParam list \<Rightarrow> real \<Rightarrow> nat \<Rightarrow>
   ChatCompletionMessageParam list \<Rightarrow> nat \<Rightarrow> ChatCompletionMessageParam list" where
  "fitLoop messages maxTokens 0 truncated currentTokenCount = truncated"
| "fitLoop messages maxTokens (Suc i) truncated currentTokenCount =
     (if i = 0 \<and> firstIsSystem messages
      then fitLoop messages maxTokens i truncated currentTokenCount
      else
        let messageTokens = estimateTokenCount (length (contentString (content (messages ! i))))
        in if real currentTokenCount + real messageTokens > maxTokens then truncated
           else fitLoop messages maxTokens i (messages ! i # truncated)
                  (currentTokenCount + messageTokens))"

definition truncateMessagesToFit ::
  "ChatCompletionMessageParam list \<Rightarrow> real \<Rightarrow> JsError + ChatCompletionMessageParam list" where
  "truncateMessagesToFit messages maxTokens =
     (if firstIsSystem messages
      then (case contentLength (content (messages ! 0)) of
              Inl e \<Rightarrow> Inl e
            | Inr len \<Rightarrow>
                Inr (fitLoop messages maxTokens (length messages) [messages ! 0]
                       (estimateTokenCount len)))
      else Inr (fitLoop messages maxTokens (length messages) [] 0))"

section \<open>The model catalog (types of model-cache.ts, as the handlers use them)\<close>

text \<open>
  The declaration of \<^verbatim>\<open>OpenRouterModel\<close> lives in \<^verbatim>\<open>model-cache.ts\<close>; the fields below are
  the ones the handlers read. The field \<^verbatim>\<open>id\<close> is \<open>model_id\<close> here.
\<close>

record Pricing =
  prompt :: string
  completion :: string

text \<open>The fields \<^verbatim>\<open>functions\<close>, \<^verbatim>\<open>tools\<close>, \<^verbatim>\<open>vision\<close>, \<^verbatim>\<open>json_mode\<close>, each optional.\<close>

record Capabilities =
  cap_functions :: "bool option"
  cap_tools :: "bool option"
  cap_vision :: "bool option"
  cap_json_mode :: "bool option"

record OpenRouterModel =
  model_id :: string
  name :: string
  description :: "string option"
  context_length :: int
  pricing :: Pricing
  capabilities :: "Capabilities option"

text \<open>
  What \<^verbatim>\<open>getCachedModels()\<close> returns and \<^verbatim>\<open>setCachedModels\<close> receives: the catalog
  (\<^verbatim>\<open>data\<close>) and the time it was stored (\<^verbatim>\<open>timestamp\<close>); the specification calls them
  \<open>entries\<close> and \<open>fetched_at\<close> of a catalog snapshot.
\<close>

record CachedModelResponse =
  data :: "OpenRouterModel list"
  timestamp :: nat

section \<open>Requests, responses and tool results (search-models.ts, get-model-info.ts, types.ts)\<close>

text \<open>
  The objects the handlers build. Field names that several objects share in the source
  (\<^verbatim>\<open>id\<close>, \<^verbatim>\<open>object\<close>, \<^verbatim>\<open>data\<close>, \<^verbatim>\<open>created\<close>, \<^verbatim>\<open>capabilities\<close>, the capability
  names) carry a prefix here: \<open>fmt_\<close> in a formatted model, \<open>search_\<close> in a search response,
  \<open>info_\<close> in a model-info response, \<open>req_\<close> in the request.
\<close>

record FormattedCapabilities =
  fmt_functions :: bool
  fmt_tools :: bool
  fmt_vision :: bool
  fmt_json_mode :: bool

record FormattedModel =
  fmt_id :: string
  fmt_name :: string
  fmt_description :: string
  fmt_context_length :: int
  fmt_pricing :: Pricing
  fmt_capabilities :: FormattedCapabilities

record SearchModelsToolRequest =
  query :: "string option"
  provider :: "string option"
  minContextLength :: "real option"
  maxContextLength :: "real option"
  maxPromptPrice :: "real option"
  maxCompletionPrice :: "real option"
  req_capabilities :: "Capabilities option"
  limit :: "real option"

record SearchResponse =
  search_id :: string
  search_object :: string
  search_data :: "FormattedModel list"
  search_created :: nat
  total_models :: nat
  filtered_count :: nat
  applied_filters :: SearchModelsToolRequest

record ModelInfoResponse =
  info_id :: string
  info_object :: string
  info_created :: nat
  owned_by :: string
  permission :: "string list"
  info_root :: string
  info_parent :: "string option"
  info_data :: FormattedModel

text \<open>
  The \<^verbatim>\<open>text\<close> of a content item: an error message, or the object handed to
  \<^verbatim>\<open>JSON.stringify\<close>.
\<close>

datatype ResponseText =
  Message string
| SearchJson SearchResponse
| ModelInfoJson ModelInfoResponse
| ValidationJson string bool

record ResponseContentItem =
  item_type :: string
  item_text :: ResponseText

record ToolResult =
  isError :: bool
  result_content :: "ResponseContentItem list"

text \<open>
  The outcome of an awaited call inside \<^verbatim>\<open>try\<close>: the value, or the exception caught, with
  its message when it is an \<^verbatim>\<open>Error\<close> instance.
\<close>

datatype 'a Outcome = Returned 'a | Threw "string option"

definition errorResult :: "string \<Rightarrow> ToolResult" where
  "errorResult msg =
     \<lparr>isError = True, result_content = [\<lparr>item_type = ''text'', item_text = Message msg\<rparr>]\<rparr>"

definition okResult :: "ResponseText \<Rightarrow> ToolResult" where
  "okResult body =
     \<lparr>isError = False, result_content = [\<lparr>item_type = ''text'', item_text = body\<rparr>]\<rparr>"

section \<open>Strings and numbers of JavaScript\<close>

text \<open>
  \<^verbatim>\<open>toLowerCase()\<close> on the code units below 256: \<open>A\<close>--\<open>Z\<close> and the Latin-1 capitals
  \<open>0xC0\<close>--\<open>0xDE\<close> (without the multiplication sign \<open>0xD7\<close>) go to the letter 32 places up,
  every other code unit stays.
\<close>

definition latin1Upper :: string where
  "latin1Upper =
     ''ABCDEFGHIJKLMNOPQRSTUVWXYZ'' @
     [
        CHR 0xC0, CHR 0xC1, CHR 0xC2, CHR 0xC3, CHR 0xC4, CHR 0xC5, CHR 0xC6, CHR 0xC7,
        CHR 0xC8, CHR 0xC9, CHR 0xCA, CHR 0xCB, CHR 0xCC, CHR 0xCD, CHR 0xCE, CHR 0xCF,
        CHR 0xD0, CHR 0xD1, CHR 0xD2, CHR 0xD3, CHR 0xD4, CHR 0xD5, CHR 0xD6, CHR 0xD8,
        CHR 0xD9, CHR 0xDA, CHR 0xDB, CHR 0xDC, CHR 0xDD, CHR 0xDE]"

definition latin1Lower :: string where
  "latin1Lower =
     ''abcdefghijklmnopqrstuvwxyz'' @
     [
        CHR 0xE0, CHR 0xE1, CHR 0xE2, CHR 0xE3, CHR 0xE4, CHR 0xE5, CHR 0xE6, CHR 0xE7,
        CHR 0xE8, CHR 0xE9, CHR 0xEA, CHR 0xEB, CHR 0xEC, CHR 0xED, CHR 0xEE, CHR 0xEF,
        CHR 0xF0, CHR 0xF1, CHR 0xF2, CHR 0xF3, CHR 0xF4, CHR 0xF5, CHR 0xF6, CHR 0xF8,
        CHR 0xF9, CHR 0xFA, CHR 0xFB, CHR 0xFC, CHR 0xFD, CHR 0xFE]"

definition lowerChar :: "char \<Rightarrow> char" where
  "lowerChar c = (case map_of (zip latin1Upper latin1Lower) c of Some l \<Rightarrow> l | None \<Rightarrow> c)"

definition toLowerCase :: "string \<Rightarrow> string" where
  "toLowerCase s = map lowerChar s"

text \<open>\<^verbatim>\<open>s.includes(t)\<close>: \<open>t\<close> occurs in \<open>s\<close> as a contiguous run.\<close>

definition includes_str :: "string \<Rightarrow> string \<Rightarrow> bool" where
  "includes_str s t = sublist t s"

text \<open>\<^verbatim>\<open>id.split('/')[0]\<close>: everything before the first \<open>/\<close>, the whole string without one.\<close>

definition splitSlashFirst :: "string \<Rightarrow> string" where
  "splitSlashFirst s = takeWhile (\<lambda>c. c \<noteq> CHR ''/'') s"

text \<open>Decimal digits of a number, for the template strings that embed \<^verbatim>\<open>Date.now()\<close>.\<close>

definition digitChar :: "nat \<Rightarrow> char" where
  "digitChar d = ''0123456789'' ! d"

fun showNat :: "nat \<Rightarrow> string" where
  "showNat n =
     (if n < 10 then [digitChar n] else showNat (n div 10) @ [digitChar (n mod 10)])"

declare showNat.simps [simp del]

text \<open>Truthiness of an optional number, string and boolean.\<close>

definition truthyNum :: "real option \<Rightarrow> bool" where
  "truthyNum x = (case x of None \<Rightarrow> False | Some v \<Rightarrow> v \<noteq> 0)"

definition truthyStr :: "string option \<Rightarrow> bool" where
  "truthyStr x = (case x of None \<Rightarrow> False | Some v \<Rightarrow> v \<noteq> [])"

definition truthyBool :: "bool option \<Rightarrow> bool" where
  "truthyBool x = (case x of None \<Rightarrow> False | Some v \<Rightarrow> v)"

text \<open>
  \<^verbatim>\<open>xs.slice(0, end)\<close>: \<open>end\<close> is truncated towards zero; a negative \<open>end\<close> counts from the
  end of the array.
\<close>

definition truncNum :: "real \<Rightarrow> int" where
  "truncNum r = (if r < 0 then \<lceil>r\<rceil> else \<lfloor>r\<rfloor>)"

definition slice0 :: "'a list \<Rightarrow> real \<Rightarrow> 'a list" where
  "slice0 xs e =
     (let k = truncNum e
      in if k < 0 then take (nat (max (int (length xs) + k) 0)) xs else take (nat k) xs)"

section \<open>search_models (search-models.ts)\<close>

text \<open>
  The filter callback of \<^verbatim>\<open>models.data.filter\<close>, one definition per commented block of the
  source. \<^verbatim>\<open>parseFloat\<close> is a parameter \<open>pf\<close>: it gives the number a price string denotes,
  an infinity, or NaN. \<open>exceeds\<close> is \<^verbatim>\<open>parseFloat(s) > bound\<close> for a finite \<open>bound\<close>: false for
  NaN, as every comparison with NaN is.
\<close>

datatype ParsedNumber = NaN | NegInfinity | Num real | Infinity

definition matchesQuery :: "string \<Rightarrow> OpenRouterModel \<Rightarrow> bool" where
  "matchesQuery q model =
     (let searchTerm = toLowerCase q
      in includes_str (toLowerCase (model_id model)) searchTerm \<or>
         (name model \<noteq> [] \<and> includes_str (toLowerCase (name model)) searchTerm) \<or>
         (case description model of
            None \<Rightarrow> False
          | Some d \<Rightarrow> d \<noteq> [] \<and> includes_str (toLowerCase d) searchTerm))"

definition queryFilter :: "SearchModelsToolRequest \<Rightarrow> OpenRouterModel \<Rightarrow> bool" where
  "queryFilter args model =
     (if truthyStr (query args) then matchesQuery (the (query args)) model else True)"

definition providerFilter :: "SearchModelsToolRequest \<Rightarrow> OpenRouterModel \<Rightarrow> bool" where
  "providerFilter args model =
     (if truthyStr (provider args)
      then splitSlashFirst (model_id model) = toLowerCase (the (provider args))
      else True)"

definition contextFilter :: "SearchModelsToolRequest \<Rightarrow> OpenRouterModel \<Rightarrow> bool" where
  "contextFilter args model =
     (if truthyNum (minContextLength args) \<and>
         real_of_int (context_length model) < the (minContextLength args) then False
      else if truthyNum (maxContextLength args) \<and>
         real_of_int (context_length model) > the (maxContextLength args) then False
      else True)"

definition exceeds :: "ParsedNumber \<Rightarrow> real \<Rightarrow> bool" where
  "exceeds parsed bound =
     (case parsed of
        NaN \<Rightarrow> False
      | NegInfinity \<Rightarrow> False
      | Num v \<Rightarrow> v > bound
      | Infinity \<Rightarrow> True)"

definition priceFilter ::
  "(string \<Rightarrow> ParsedNumber) \<Rightarrow> SearchModelsToolRequest \<Rightarrow> OpenRouterModel \<Rightarrow> bool" where
  "priceFilter pf args model =
     (if truthyNum (maxPromptPrice args) \<and>
         exceeds (pf (prompt (pricing model))) (the (maxPromptPrice args)) then False
      else if truthyNum (maxCompletionPrice args) \<and>
         exceeds (pf (completion (pricing model))) (the (maxCompletionPrice args)) then False
      else True)"

text \<open>\<^verbatim>\<open>model.capabilities?.functions\<close> and its siblings, as truth values.\<close>

definition hasCapability ::
  "(Capabilities \<Rightarrow> bool option) \<Rightarrow> OpenRouterModel \<Rightarrow> bool" where
  "hasCapability field model =
     (case capabilities model of None \<Rightarrow> False | Some c \<Rightarrow> truthyBool (field c))"

definition capabilitiesFilter :: "SearchModelsToolRequest \<Rightarrow> OpenRouterModel \<Rightarrow> bool" where
  "capabilitiesFilter args model =
     (case req_capabilities args of
        None \<Rightarrow> True
      | Some wanted \<Rightarrow>
          if truthyBool (cap_functions wanted) \<and> \<not> hasCapability cap_functions model then False
          else if truthyBool (cap_tools wanted) \<and> \<not> hasCapability cap_tools model then False
          else if truthyBool (cap_vision wanted) \<and> \<not> hasCapability cap_vision model then False
          else if truthyBool (cap_json_mode wanted) \<and> \<not> hasCapability cap_json_mode model
          then False
          else True)"

definition matchesFilters ::
  "(string \<Rightarrow> ParsedNumber) \<Rightarrow> SearchModelsToolRequest \<Rightarrow> OpenRouterModel \<Rightarrow> bool" where
  "matchesFilters pf args model =
     (if \<not> queryFilter args model then False
      else if \<not> providerFilter args model then False
      else if \<not> contextFilter args model then False
      else if \<not> priceFilter pf args model then False
      else if \<not> capabilitiesFilter args model then False
      else True)"

text \<open>
  The object built by \<^verbatim>\<open>.map(model => ({...}))\<close>; \<^verbatim>\<open>get-model-info.ts\<close> builds the same
  object under \<^verbatim>\<open>data\<close>.
\<close>

definition formatModel :: "OpenRouterModel \<Rightarrow> FormattedModel" where
  "formatModel model =
     \<lparr>fmt_id = model_id model,
      fmt_name = name model,
      fmt_description =
        (if truthyStr (description model) then the (description model)
         else ''No description available''),
      fmt_context_length = context_length model,
      fmt_pricing =
        \<lparr>prompt = ''$'' @ prompt (pricing model) @ ''/1K tokens'',
         completion = ''$'' @ completion (pricing model) @ ''/1K tokens''\<rparr>,
      fmt_capabilities =
        \<lparr>fmt_functions = hasCapability cap_functions model,
         fmt_tools = hasCapability cap_tools model,
         fmt_vision = hasCapability cap_vision model,
         fmt_json_mode = hasCapability cap_json_mode model\<rparr>\<rparr>"

text \<open>\<^verbatim>\<open>args.limit || 10\<close>\<close>

definition limitOr10 :: "SearchModelsToolRequest \<Rightarrow> real" where
  "limitOr10 args = (if truthyNum (limit args) then the (limit args) else 10)"

text \<open>The models that pass the filter and the limit, before they are formatted.\<close>

definition selectedModels ::
  "(string \<Rightarrow> ParsedNumber) \<Rightarrow> SearchModelsToolRequest \<Rightarrow> OpenRouterModel list \<Rightarrow>
   OpenRouterModel list" where
  "selectedModels pf args models = slice0 (filter (matchesFilters pf args) models) (limitOr10 args)"

definition searchResults ::
  "(string \<Rightarrow> ParsedNumber) \<Rightarrow> SearchModelsToolRequest \<Rightarrow> OpenRouterModel list \<Rightarrow>
   FormattedModel list" where
  "searchResults pf args models = map formatModel (selectedModels pf args models)"

definition searchResponse ::
  "(string \<Rightarrow> ParsedNumber) \<Rightarrow> SearchModelsToolRequest \<Rightarrow> OpenRouterModel list \<Rightarrow> nat \<Rightarrow>
   SearchResponse" where
  "searchResponse pf args models now =
     \<lparr>search_id = ''search-'' @ showNat now,
      search_object = ''list'',
      search_data = searchResults pf args models,
      search_created = now div 1000,
      total_models = length models,
      filtered_count = length (searchResults pf args models),
      applied_filters = args\<rparr>"

text \<open>
  What one call of the handler does: its result, whether it called
  \<^verbatim>\<open>apiClient.fetchModels()\<close>, and the argument of \<^verbatim>\<open>modelCache.setCachedModels\<close> when it
  called that.
\<close>

record SearchRun =
  tool_result :: ToolResult
  fetch_called :: bool
  cache_write :: "CachedModelResponse option"

text \<open>
  \<open>cached\<close> is what \<^verbatim>\<open>modelCache.getCachedModels()\<close> returned, \<open>fetched\<close> the outcome of
  \<^verbatim>\<open>await apiClient.fetchModels()\<close> (read only when the cache returned nothing).
\<close>

definition handleSearchModels ::
  "(string \<Rightarrow> ParsedNumber) \<Rightarrow> SearchModelsToolRequest \<Rightarrow> CachedModelResponse option \<Rightarrow>
   OpenRouterModel list option Outcome \<Rightarrow> nat \<Rightarrow> SearchRun" where
  "handleSearchModels pf args cached fetched now =
     (case cached of
        Some models \<Rightarrow>
          \<lparr>tool_result = okResult (SearchJson (searchResponse pf args (data models) now)),
           fetch_called = False, cache_write = None\<rparr>
      | None \<Rightarrow>
          (case fetched of
             Threw (Some msg) \<Rightarrow>
               \<lparr>tool_result = errorResult (''Error: Failed to search models: '' @ msg),
                fetch_called = True, cache_write = None\<rparr>
           | Threw None \<Rightarrow>
               \<lparr>tool_result =
                  errorResult ''Error: An unknown error occurred during model search.'',
                fetch_called = True, cache_write = None\<rparr>
           | Returned None \<Rightarrow>
               \<lparr>tool_result = errorResult ''Error: Failed to fetch models. Please try again.'',
                fetch_called = True, cache_write = None\<rparr>
           | Returned (Some models) \<Rightarrow>
               \<lparr>tool_result = okResult (SearchJson (searchResponse pf args models now)),
                fetch_called = True,
                cache_write = Some \<lparr>data = models, timestamp = now\<rparr>\<rparr>))"

text \<open>
  The \<^verbatim>\<open>data\<close> list a caller reads from a tool result: the result is not an error and its one
  content item holds a search response.
\<close>

definition returnedData :: "ToolResult \<Rightarrow> FormattedModel list option" where
  "returnedData result =
     (if isError result then None
      else (case result_content result of
              [item] \<Rightarrow>
                (case item_text item of
                   SearchJson response \<Rightarrow> Some (search_data response)
                 | _ \<Rightarrow> None)
            | _ \<Rightarrow> None))"

section \<open>get_model_info (get-model-info.ts) and validate_model (validate-model.ts)\<close>

text \<open>\<^verbatim>\<open>error instanceof Error ? error.message : 'An unknown error occurred'\<close>\<close>

definition errorMessage :: "string option \<Rightarrow> string" where
  "errorMessage e = (case e of Some msg \<Rightarrow> msg | None \<Rightarrow> ''An unknown error occurred'')"

text \<open>\<open>found\<close> is the outcome of \<^verbatim>\<open>await modelCache.getModelInfo(model)\<close>.\<close>

definition modelInfoResponse :: "OpenRouterModel \<Rightarrow> nat \<Rightarrow> ModelInfoResponse" where
  "modelInfoResponse modelInfo now =
     \<lparr>info_id = ''info-'' @ showNat now,
      info_object = ''model'',
      info_created = now div 1000,
      owned_by = splitSlashFirst (model_id modelInfo),
      permission = [],
      info_root = model_id modelInfo,
      info_parent = None,
      info_data = formatModel modelInfo\<rparr>"

definition handleGetModelInfo ::
  "string \<Rightarrow> OpenRouterModel option Outcome \<Rightarrow> nat \<Rightarrow> ToolResult" where
  "handleGetModelInfo model found now =
     (case found of
        Returned None \<Rightarrow> errorResult (''Error: Model not found: '' @ model)
      | Returned (Some modelInfo) \<Rightarrow> okResult (ModelInfoJson (modelInfoResponse modelInfo now))
      | Threw e \<Rightarrow> errorResult (''Error: Failed to get model info: '' @ errorMessage e))"

text \<open>\<open>isValid\<close> is the outcome of \<^verbatim>\<open>await modelCache.validateModel(model)\<close>.\<close>

definition handleValidateModel :: "string \<Rightarrow> bool Outcome \<Rightarrow> ToolResult" where
  "handleValidateModel model isValid =
     (case isValid of
        Returned True \<Rightarrow> okResult (ValidationJson model True)
      | Returned False \<Rightarrow> errorResult (''Error: Model not found: '' @ model)
      | Threw e \<Rightarrow> errorResult (''Error: Failed to validate model: '' @ errorMessage e))"

section \<open>Absent capabilities\<close>

text \<open>
  A capability of a descriptor is absent when the descriptor has no \<^verbatim>\<open>capabilities\<close> object,
  or the object lacks the field.
\<close>

definition capabilityAbsent :: "(Capabilities \<Rightarrow> bool option) \<Rightarrow> OpenRouterModel \<Rightarrow> bool" where
  "capabilityAbsent field model =
     (case capabilities model of None \<Rightarrow> True | Some c \<Rightarrow> field c = None)"

text \<open>A formatted model reports every absent capability of the descriptor as false.\<close>

definition reportsAbsentAsFalse :: "OpenRouterModel \<Rightarrow> FormattedModel \<Rightarrow> bool" where
  "reportsAbsentAsFalse model shown =
     ((capabilityAbsent cap_functions model \<longrightarrow> \<not> fmt_functions (fmt_capabilities shown)) \<and>
      (capabilityAbsent cap_tools model \<longrightarrow> \<not> fmt_tools (fmt_capabilities shown)) \<and>
      (capabilityAbsent cap_vision model \<longrightarrow> \<not> fmt_vision (fmt_capabilities shown)) \<and>
      (capabilityAbsent cap_json_mode model \<longrightarrow> \<not> fmt_json_mode (fmt_capabilities shown)))"

section \<open>The model cache, from its specification\<close>

text \<open>
  Modelled from the spec: the class \<^verbatim>\<open>ModelCache\<close> of \<^verbatim>\<open>model-cache.ts\<close>, which is not among
  the sources. Its state is the snapshot it holds, if any, and the freshness threshold
  (\<open>cacheExpiry\<close>, milliseconds); \<open>fetches\<close> counts the refreshes the cache has asked the
  registry client for.
\<close>

record ModelCache =
  cachedModels :: "CachedModelResponse option"
  cacheExpiry :: nat
  fetches :: nat

text \<open>
  Modelled from the spec: the failure of \<^verbatim>\<open>fetchModels\<close> of \<^verbatim>\<open>openrouter-api.ts\<close>
  (\<open>FetchError{reason: "upstream unavailable" | "rate limited"}\<close>).
\<close>

datatype FetchError = UpstreamUnavailable | RateLimited

text \<open>
  Modelled from the spec: the argument of \<^verbatim>\<open>setCachedModels\<close>, a snapshot that brings its
  \<open>fetched_at\<close>, or a catalog without one (``the provided or current time'').
\<close>

datatype SnapshotArg = WithTime CachedModelResponse | WithoutTime "OpenRouterModel list"

text \<open>
  Modelled from the spec: the snapshot \<^verbatim>\<open>setCachedModels\<close> installs at time \<open>now\<close>,
  ``setting \<open>fetched_at\<close> to the provided or current time''.
\<close>

fun stamp :: "SnapshotArg \<Rightarrow> nat \<Rightarrow> CachedModelResponse" where
  "stamp (WithTime snapshot) now = snapshot"
| "stamp (WithoutTime models) now = \<lparr>data = models, timestamp = now\<rparr>"

text \<open>
  Modelled from the spec: \<^verbatim>\<open>ModelCache.setCachedModels\<close>, ``installs a new snapshot,
  overwriting any prior one''.
\<close>

definition setCachedModels :: "ModelCache \<Rightarrow> SnapshotArg \<Rightarrow> nat \<Rightarrow> ModelCache" where
  "setCachedModels cache arg now = cache\<lparr>cachedModels := Some (stamp arg now)\<rparr>"

text \<open>
  Modelled from the spec: staleness, ``snapshot age exceeds the freshness threshold''.
\<close>

definition isStale :: "ModelCache \<Rightarrow> CachedModelResponse \<Rightarrow> nat \<Rightarrow> bool" where
  "isStale cache snapshot now = (int now - int (timestamp snapshot) > int (cacheExpiry cache))"

text \<open>
  Modelled from the spec: \<^verbatim>\<open>ModelCache.getCachedModels\<close>, ``returns the current snapshot
  without triggering a fetch, or absent if never populated or past freshness threshold''.
  The second component is the cache after the call.
\<close>

definition getCachedModels :: "ModelCache \<Rightarrow> nat \<Rightarrow> CachedModelResponse option \<times> ModelCache" where
  "getCachedModels cache now =
     (case cachedModels cache of
        None \<Rightarrow> (None, cache)
      | Some snapshot \<Rightarrow> if isStale cache snapshot now then (None, cache) else (Some snapshot, cache))"

text \<open>
  Modelled from the spec: the lookup of a descriptor in a snapshot, a ``case-sensitive exact
  match on \<open>id\<close>''.
\<close>

definition lookupModel :: "string \<Rightarrow> OpenRouterModel list \<Rightarrow> OpenRouterModel option" where
  "lookupModel i models = find (\<lambda>m. model_id m = i) models"

text \<open>
  Modelled from the spec: what a lookup gives back, the descriptor (or absent), the failure of
  the refresh for a caller that inspects it, and the cache after the call.
\<close>

record LookupRun =
  found_model :: "OpenRouterModel option"
  refresh_failure :: "FetchError option"
  cache_after :: ModelCache

text \<open>
  Modelled from the spec: \<^verbatim>\<open>ModelCache.getModelInfo\<close>, ``resolves against the freshest available
  snapshot, triggering an internal refresh via the Registry Client if the cache is empty or
  stale; returns absent if, after refresh, no descriptor with that \<open>id\<close> exists''. \<open>fetched\<close> is
  what the client's \<^verbatim>\<open>fetchModels\<close> gives when the refresh runs. On a failed refresh the cache
  ``remains in the prior state (stale or empty data is preferred over no answer)''.
\<close>

definition getModelInfo ::
  "ModelCache \<Rightarrow> FetchError + CachedModelResponse \<Rightarrow> nat \<Rightarrow> string \<Rightarrow> LookupRun" where
  "getModelInfo cache fetched now i =
     (case fst (getCachedModels cache now) of
        Some snapshot \<Rightarrow>
          \<lparr>found_model = lookupModel i (data snapshot), refresh_failure = None,
           cache_after = cache\<rparr>
      | None \<Rightarrow>
          (case fetched of
             Inr snapshot \<Rightarrow>
               \<lparr>found_model = lookupModel i (data snapshot), refresh_failure = None,
                cache_after =
                  (setCachedModels cache (WithTime snapshot) now)\<lparr>fetches := Suc (fetches cache)\<rparr>\<rparr>
           | Inl e \<Rightarrow>
               \<lparr>found_model =
                  (case cachedModels cache of
                     None \<Rightarrow> None
                   | Some old \<Rightarrow> lookupModel i (data old)),
                refresh_failure = Some e,
                cache_after = cache\<lparr>fetches := Suc (fetches cache)\<rparr>\<rparr>))"

text \<open>
  Modelled from the spec: \<^verbatim>\<open>ModelCache.validateModel\<close>, ``equivalent to
  \<open>getModelInfo(id) != absent\<close>''. The second component is the run of the lookup.
\<close>

definition validateModel ::
  "ModelCache \<Rightarrow> FetchError + CachedModelResponse \<Rightarrow> nat \<Rightarrow> string \<Rightarrow> bool \<times> LookupRun" where
  "validateModel cache fetched now i =
     (let run = getModelInfo cache fetched now i in (found_model run \<noteq> None, run))"


text \<open>
  The catalog one call of the handler searches (lines 31--37 of the source): the cached
  snapshot's, or the fetched one when the cache returned nothing.
\<close>

definition searchesCatalog ::
  "CachedModelResponse option \<Rightarrow> OpenRouterModel list option Outcome \<Rightarrow>
   OpenRouterModel list \<Rightarrow> bool" where
  "searchesCatalog cached fetched catalog =
     (case cached of
        Some snapshot \<Rightarrow> data snapshot = catalog
      | None \<Rightarrow> fetched = Returned (Some catalog))"

section \<open>Example values\<close>

text \<open>Concrete inputs, used where a theorem is run on an example.\<close>

definition gpt4o :: OpenRouterModel where
  "gpt4o =
     \<lparr>model_id = ''openai/gpt-4o'', name = ''GPT-4o'', description = None,
      context_length = 128000, pricing = \<lparr>prompt = ''0.005'', completion = ''0.015''\<rparr>,
      capabilities =
        Some \<lparr>cap_functions = Some True, cap_tools = Some True, cap_vision = None,
              cap_json_mode = Some False\<rparr>\<rparr>"

definition claude3 :: OpenRouterModel where
  "claude3 =
     \<lparr>model_id = ''anthropic/claude-3'', name = ''Claude 3'', description = Some ''A model'',
      context_length = 200000, pricing = \<lparr>prompt = ''0.003'', completion = ''0.015''\<rparr>,
      capabilities = None\<rparr>"

definition noFilters :: SearchModelsToolRequest where
  "noFilters =
     \<lparr>query = None, provider = None, minContextLength = None, maxContextLength = None,
      maxPromptPrice = None, maxCompletionPrice = None, req_capabilities = None, limit = None\<rparr>"

definition emptyCache :: ModelCache where
  "emptyCache = \<lparr>cachedModels = None, cacheExpiry = 3600000, fetches = 0\<rparr>"

definition systemThenUser :: "ChatCompletionMessageParam list" where
  "systemThenUser =
     [\<lparr>role = ''system'', content = Str ''You are helpful''\<rparr>,
      \<lparr>role = ''user'', content = Str ''hello''\<rparr>]"

section \<open>Properties of truncation\<close>

text \<open>
  The loop prepends a contiguous run of messages \<open>k, ..., j - 1\<close> to what it was given, and
  never index 0 when that is the system message.
\<close>

lemma fitLoop_run:
  "j \<le> length messages \<Longrightarrow>
   \<exists>k. (firstIsSystem messages \<longrightarrow> 1 \<le> k \<or> j = 0) \<and> k \<le> j \<and>
       fitLoop messages maxTokens j truncated cnt = map ((!) messages) [k..<j] @ truncated"
proof (induction j arbitrary: truncated cnt)
  case 0
  then show ?case by simp
next
  case (Suc i)
  show ?case
  proof (cases "i = 0 \<and> firstIsSystem messages")
    case True
    then have "fitLoop messages maxTokens (Suc i) truncated cnt = truncated" by simp
    then have "fitLoop messages maxTokens (Suc i) truncated cnt
               = map ((!) messages) [Suc i..<Suc i] @ truncated" by simp
    then show ?thesis by (intro exI [of _ "Suc i"]) simp
  next
    case False
    define t where "t = estimateTokenCount (length (contentString (content (messages ! i))))"
    show ?thesis
    proof (cases "real cnt + real t > maxTokens")
      case True
      with False have "fitLoop messages maxTokens (Suc i) truncated cnt = truncated"
        by (simp add: t_def Let_def)
      then have "fitLoop messages maxTokens (Suc i) truncated cnt
                 = map ((!) messages) [Suc i..<Suc i] @ truncated" by simp
      then show ?thesis by (intro exI [of _ "Suc i"]) simp
    next
      case fits: False
      from Suc.prems have "i \<le> length messages" by simp
      from Suc.IH [OF this, of "messages ! i # truncated" "cnt + t"]
      obtain k where k: "firstIsSystem messages \<longrightarrow> 1 \<le> k \<or> i = 0" "k \<le> i"
        and eq: "fitLoop messages maxTokens i (messages ! i # truncated) (cnt + t)
                 = map ((!) messages) [k..<i] @ messages ! i # truncated"
        by blast
      from False fits have "fitLoop messages maxTokens (Suc i) truncated cnt
            = fitLoop messages maxTokens i (messages ! i # truncated) (cnt + t)"
        by (simp add: t_def Let_def)
      with eq k(2) have "fitLoop messages maxTokens (Suc i) truncated cnt
            = map ((!) messages) [k..<Suc i] @ truncated"
        by simp
      moreover from k(1) False have "firstIsSystem messages \<longrightarrow> 1 \<le> k"
        by auto
      ultimately show ?thesis using k(2) by (intro exI [of _ k]) simp
    qed
  qed
qed

text \<open>
  C10. For a message list whose first element has role \<open>system\<close> (and whose content is a
  string or an array, as the type of a system message requires), and for every
  \<open>maxTokens\<close>, \<open>truncateMessagesToFit\<close> returns a list, and that list is the messages at
  positions \<open>k, ..., length - 1\<close> for some \<open>k \<ge> 1\<close>, followed by the message at position 0:
  the system message is included exactly once (position 0 occurs once among the positions
  returned), whatever its own token estimate is.
\<close>

theorem truncateMessagesToFit_system_once:
  assumes "messages \<noteq> []"
    and "role (hd messages) = ''system''"
    and "content (hd messages) \<noteq> NoContent"
  shows "\<exists>k. 1 \<le> k \<and> k \<le> length messages \<and>
           truncateMessagesToFit messages maxTokens
             = Inr (map ((!) messages) ([k..<length messages] @ [0])) \<and>
           count_list ([k..<length messages] @ [0]) 0 = 1"
proof -
  from assms(1) obtain m rest where ms: "messages = m # rest" by (cases messages) auto
  with assms(2) have sys: "firstIsSystem messages" by (simp add: firstIsSystem_def)
  from assms(3) ms obtain len where len: "contentLength (content (messages ! 0)) = Inr len"
    by (cases "content m") auto
  from fitLoop_run [of "length messages" messages maxTokens "[messages ! 0]"
      "estimateTokenCount len"] sys ms
  obtain k where k: "1 \<le> k" "k \<le> length messages"
    and eq: "fitLoop messages maxTokens (length messages) [messages ! 0] (estimateTokenCount len)
             = map ((!) messages) [k..<length messages] @ [messages ! 0]"
    by auto
  have "truncateMessagesToFit messages maxTokens
          = Inr (map ((!) messages) ([k..<length messages] @ [0]))"
    using sys len eq by (simp add: truncateMessagesToFit_def)
  moreover have "count_list ([k..<length messages] @ [0]) 0 = 1"
    using k(1) by (simp add: count_list_0_iff)
  ultimately show ?thesis using k by blast
qed

theorem truncateMessagesToFit_system_once_witness:
  "systemThenUser \<noteq> [] \<and>
   role (hd systemThenUser) = ''system'' \<and>
   content (hd systemThenUser) \<noteq> NoContent \<and>
   truncateMessagesToFit systemThenUser 1
     = Inr [\<lparr>role = ''system'', content = Str ''You are helpful''\<rparr>]"
proof -
  have h1: "systemThenUser \<noteq> []" by (simp add: systemThenUser_def)
  have h2: "role (hd systemThenUser) = ''system''" by (simp add: systemThenUser_def)
  have h3: "content (hd systemThenUser) \<noteq> NoContent" by (simp add: systemThenUser_def)
  from truncateMessagesToFit_system_once [OF h1 h2 h3, of 1]
  obtain k where "truncateMessagesToFit systemThenUser 1
      = Inr (map ((!) systemThenUser) ([k..<length systemThenUser] @ [0]))"
    by blast
  moreover have "truncateMessagesToFit systemThenUser 1
      = Inr [\<lparr>role = ''system'', content = Str ''You are helpful''\<rparr>]"
    by (simp add: systemThenUser_def truncateMessagesToFit_def firstIsSystem_def
        estimateTokenCount_def numeral_2_eq_2)
  ultimately show ?thesis using h1 h2 h3 by simp
qed

section \<open>Properties of search_models\<close>

lemma slice0_positive: "0 < e \<Longrightarrow> slice0 xs e = take (nat \<lfloor>e\<rfloor>) xs"
  by (simp add: slice0_def truncNum_def Let_def)

lemma limitOr10_absent: "limit args = None \<or> limit args = Some 0 \<Longrightarrow> limitOr10 args = 10"
  by (auto simp: limitOr10_def truthyNum_def)

lemma limitOr10_positive: "limit args = Some k \<Longrightarrow> 0 < k \<Longrightarrow> limitOr10 args = k"
  by (auto simp: limitOr10_def truthyNum_def)

lemma search_data_eq:
  "search_data (searchResponse pf args models now)
   = map formatModel (slice0 (filter (matchesFilters pf args) models) (limitOr10 args))"
  by (simp add: searchResponse_def searchResults_def selectedModels_def)

lemma matchesFilters_unconstrained:
  "\<not> truthyStr (query args) \<Longrightarrow> \<not> truthyStr (provider args) \<Longrightarrow>
   \<not> truthyNum (minContextLength args) \<Longrightarrow> \<not> truthyNum (maxContextLength args) \<Longrightarrow>
   \<not> truthyNum (maxPromptPrice args) \<Longrightarrow> \<not> truthyNum (maxCompletionPrice args) \<Longrightarrow>
   req_capabilities args = None \<Longrightarrow> matchesFilters pf args m"
  by (simp add: matchesFilters_def queryFilter_def providerFilter_def contextFilter_def
      priceFilter_def capabilitiesFilter_def)

text \<open>
  What the handler answers when it has a catalog: the response built from the cached catalog,
  or from the fetched one.
\<close>

lemma handleSearchModels_cached:
  "tool_result (handleSearchModels pf args (Some snapshot) fetched now)
   = okResult (SearchJson (searchResponse pf args (data snapshot) now))"
  by (simp add: handleSearchModels_def)

lemma handleSearchModels_fetched:
  "tool_result (handleSearchModels pf args None (Returned (Some models)) now)
   = okResult (SearchJson (searchResponse pf args models now))"
  by (simp add: handleSearchModels_def)

lemma handleSearchModels_catalog:
  "searchesCatalog cached fetched catalog \<Longrightarrow>
   tool_result (handleSearchModels pf args cached fetched now)
   = okResult (SearchJson (searchResponse pf args catalog now))"
  by (cases cached)
    (auto simp: searchesCatalog_def handleSearchModels_cached handleSearchModels_fetched)

lemma returnedData_okResult:
  "returnedData (okResult (SearchJson response)) = Some (search_data response)"
  by (simp add: returnedData_def okResult_def)

lemma returnedData_handleSearchModels:
  "searchesCatalog cached fetched catalog \<Longrightarrow>
   returnedData (tool_result (handleSearchModels pf args cached fetched now))
   = Some (map formatModel (slice0 (filter (matchesFilters pf args) catalog) (limitOr10 args)))"
  by (simp add: handleSearchModels_catalog returnedData_okResult search_data_eq)

text \<open>
  C9. When \<open>handleSearchModels\<close> has a catalog (the cached one, or the fetched one), the
  \<open>data\<close> list of the result it returns is the first \<open>k\<close> models of the catalog that pass
  all filters, in catalog order and formatted, where \<open>k\<close> is 10 when \<open>args.limit\<close> is absent
  or zero and \<open>args.limit\<close> when it is positive (rounded down when it is not a whole number);
  for a whole number \<open>j\<close> the list has \<open>min n j\<close> elements, \<open>n\<close> the number of models that
  pass. Nothing clamps \<open>j\<close> at 50.
\<close>

theorem search_models_limit:
  assumes "searchesCatalog cached fetched catalog"
  shows
  "(limit args = None \<or> limit args = Some 0 \<longrightarrow>
      returnedData (tool_result (handleSearchModels pf args cached fetched now))
        = Some (map formatModel (take 10 (filter (matchesFilters pf args) catalog)))) \<and>
   (limit args = Some k \<and> 0 < k \<longrightarrow>
      returnedData (tool_result (handleSearchModels pf args cached fetched now))
        = Some (map formatModel (take (nat \<lfloor>k\<rfloor>) (filter (matchesFilters pf args) catalog)))) \<and>
   (limit args = Some (real j) \<and> 0 < j \<longrightarrow>
      returnedData (tool_result (handleSearchModels pf args cached fetched now))
        = Some (map formatModel (take j (filter (matchesFilters pf args) catalog))) \<and>
      map_option length (returnedData (tool_result (handleSearchModels pf args cached fetched now)))
        = Some (min (length (filter (matchesFilters pf args) catalog)) j))"
proof -
  note run = returnedData_handleSearchModels [OF assms, of pf args now]
  show ?thesis
  proof (intro conjI impI)
    assume "limit args = None \<or> limit args = Some 0"
    then have "limitOr10 args = 10" by (rule limitOr10_absent)
    then show "returnedData (tool_result (handleSearchModels pf args cached fetched now))
        = Some (map formatModel (take 10 (filter (matchesFilters pf args) catalog)))"
      using slice0_positive [of 10 "filter (matchesFilters pf args) catalog"]
      by (simp add: run)
  next
    assume "limit args = Some k \<and> 0 < k"
    then have "limitOr10 args = k" "0 < k" by (simp_all add: limitOr10_positive)
    then show "returnedData (tool_result (handleSearchModels pf args cached fetched now))
        = Some (map formatModel (take (nat \<lfloor>k\<rfloor>) (filter (matchesFilters pf args) catalog)))"
      by (simp add: run slice0_positive)
  next
    assume "limit args = Some (real j) \<and> 0 < j"
    then have "limitOr10 args = real j" "0 < real j" by (simp_all add: limitOr10_positive)
    then show whole: "returnedData (tool_result (handleSearchModels pf args cached fetched now))
        = Some (map formatModel (take j (filter (matchesFilters pf args) catalog)))"
      by (simp add: run slice0_positive)
    then show "map_option length
            (returnedData (tool_result (handleSearchModels pf args cached fetched now)))
        = Some (min (length (filter (matchesFilters pf args) catalog)) j)"
      by simp
  qed
qed

lemma noFilters_all:
  "filter (matchesFilters pf (noFilters\<lparr>limit := l\<rparr>)) models = models"
  by (simp add: matchesFilters_unconstrained noFilters_def truthyStr_def truthyNum_def)

theorem search_models_limit_witness:
  "searchesCatalog (Some \<lparr>data = replicate 70 gpt4o, timestamp = 0\<rparr>) (Threw None)
     (replicate 70 gpt4o) \<and>
   limit (noFilters\<lparr>limit := Some (real 60)\<rparr>) = Some (real 60) \<and> (0::nat) < 60 \<and>
   map_option length
     (returnedData (tool_result (handleSearchModels (\<lambda>_. NaN)
        (noFilters\<lparr>limit := Some (real 60)\<rparr>)
        (Some \<lparr>data = replicate 70 gpt4o, timestamp = 0\<rparr>) (Threw None) 0))) = Some 60 \<and>
   searchesCatalog None (Returned (Some (replicate 70 gpt4o))) (replicate 70 gpt4o) \<and>
   limit (noFilters\<lparr>limit := None\<rparr>) = None \<and>
   returnedData (tool_result (handleSearchModels (\<lambda>_. NaN) (noFilters\<lparr>limit := None\<rparr>)
        None (Returned (Some (replicate 70 gpt4o))) 0))
     = Some (replicate 10 (formatModel gpt4o))"
proof -
  have cached: "searchesCatalog (Some \<lparr>data = replicate 70 gpt4o, timestamp = 0\<rparr>) (Threw None)
     (replicate 70 gpt4o)"
    by (simp add: searchesCatalog_def)
  have fetched: "searchesCatalog None (Returned (Some (replicate 70 gpt4o))) (replicate 70 gpt4o)"
    by (simp add: searchesCatalog_def)
  have "map_option length
     (returnedData (tool_result (handleSearchModels (\<lambda>_. NaN)
        (noFilters\<lparr>limit := Some (real 60)\<rparr>)
        (Some \<lparr>data = replicate 70 gpt4o, timestamp = 0\<rparr>) (Threw None) 0))) = Some 60"
    using search_models_limit [OF cached, where args = "noFilters\<lparr>limit := Some (real 60)\<rparr>"
        and pf = "\<lambda>_. NaN" and now = 0 and j = 60]
    by (simp add: noFilters_all)
  moreover have "returnedData (tool_result (handleSearchModels (\<lambda>_. NaN)
        (noFilters\<lparr>limit := None\<rparr>) None (Returned (Some (replicate 70 gpt4o))) 0))
     = Some (replicate 10 (formatModel gpt4o))"
    using search_models_limit [OF fetched, where args = "noFilters\<lparr>limit := None\<rparr>"
        and pf = "\<lambda>_. NaN" and now = 0]
    by (simp add: noFilters_all)
  ultimately show ?thesis using cached fetched by simp
qed

section \<open>Properties of the formatted capabilities\<close>

lemma hasCapability_absent: "capabilityAbsent field model \<Longrightarrow> \<not> hasCapability field model"
  by (auto simp: capabilityAbsent_def hasCapability_def truthyBool_def split: option.splits)

lemma formatModel_absent: "reportsAbsentAsFalse model (formatModel model)"
  by (simp add: reportsAbsentAsFalse_def formatModel_def hasCapability_absent)

lemma formatModel_id: "fmt_id (formatModel model) = model_id model"
  by (simp add: formatModel_def)

text \<open>
  C8. A capability that is absent from a descriptor (no \<open>capabilities\<close> object, or no such
  field in it) is reported as false: by get_model_info, whose successful answer carries the
  formatted descriptor under \<open>data\<close>, and by search_models, where the \<open>data\<close> list of the
  result \<open>handleSearchModels\<close> returns has one entry for each selected model, in order, with
  that model's \<open>id\<close> and with each of its absent capabilities false.
\<close>

theorem absent_capabilities_reported_false:
  assumes "searchesCatalog cached fetched catalog"
  shows
  "handleGetModelInfo i (Returned (Some m)) now
     = okResult (ModelInfoJson (modelInfoResponse m now)) \<and>
   reportsAbsentAsFalse m (info_data (modelInfoResponse m now)) \<and>
   (\<exists>shown.
      returnedData (tool_result (handleSearchModels pf args cached fetched now)) = Some shown \<and>
      list_all2 (\<lambda>model entry. fmt_id entry = model_id model \<and> reportsAbsentAsFalse model entry)
        (selectedModels pf args catalog) shown)"
proof (intro conjI)
  show "handleGetModelInfo i (Returned (Some m)) now
     = okResult (ModelInfoJson (modelInfoResponse m now))"
    by (simp add: handleGetModelInfo_def)
  show "reportsAbsentAsFalse m (info_data (modelInfoResponse m now))"
    by (simp add: modelInfoResponse_def formatModel_absent)
  have "returnedData (tool_result (handleSearchModels pf args cached fetched now))
      = Some (map formatModel (selectedModels pf args catalog))"
    using assms by (simp add: returnedData_handleSearchModels selectedModels_def)
  moreover have "list_all2
      (\<lambda>model entry. fmt_id entry = model_id model \<and> reportsAbsentAsFalse model entry)
      (selectedModels pf args catalog) (map formatModel (selectedModels pf args catalog))"
    by (simp add: list_all2_map2 formatModel_absent formatModel_id list.rel_refl)
  ultimately show "\<exists>shown.
      returnedData (tool_result (handleSearchModels pf args cached fetched now)) = Some shown \<and>
      list_all2 (\<lambda>model entry. fmt_id entry = model_id model \<and> reportsAbsentAsFalse model entry)
        (selectedModels pf args catalog) shown"
    by blast
qed

theorem absent_capabilities_reported_false_witness:
  "searchesCatalog (Some \<lparr>data = [claude3], timestamp = 0\<rparr>) (Threw None) [claude3] \<and>
   capabilityAbsent cap_vision gpt4o \<and>
   \<not> fmt_vision (fmt_capabilities (info_data (modelInfoResponse gpt4o 1700000000000))) \<and>
   fmt_functions (fmt_capabilities (info_data (modelInfoResponse gpt4o 1700000000000))) \<and>
   capabilityAbsent cap_tools claude3 \<and>
   (\<exists>entry.
      returnedData (tool_result (handleSearchModels (\<lambda>_. NaN) noFilters
         (Some \<lparr>data = [claude3], timestamp = 0\<rparr>) (Threw None) 1700000000000)) = Some [entry] \<and>
      fmt_id entry = model_id claude3 \<and> \<not> fmt_tools (fmt_capabilities entry))"
proof -
  have catalog: "searchesCatalog (Some \<lparr>data = [claude3], timestamp = 0\<rparr>) (Threw None) [claude3]"
    by (simp add: searchesCatalog_def)
  have absent: "capabilityAbsent cap_vision gpt4o" "capabilityAbsent cap_tools claude3"
    by (simp_all add: capabilityAbsent_def gpt4o_def claude3_def)
  have sel: "selectedModels (\<lambda>_. NaN) noFilters [claude3] = [claude3]"
    using noFilters_all [of "\<lambda>_. NaN" None "[claude3]"]
    by (simp add: selectedModels_def slice0_def truncNum_def limitOr10_def truthyNum_def
        noFilters_def)
  note inst = absent_capabilities_reported_false
    [OF catalog, where m = gpt4o and now = 1700000000000 and pf = "\<lambda>_. NaN"
       and args = noFilters and i = "model_id gpt4o"]
  from inst have "reportsAbsentAsFalse gpt4o (info_data (modelInfoResponse gpt4o 1700000000000))"
    by blast
  with absent(1)
  have vision: "\<not> fmt_vision (fmt_capabilities (info_data (modelInfoResponse gpt4o 1700000000000)))"
    by (simp add: reportsAbsentAsFalse_def)
  from inst obtain shown where shown:
    "returnedData (tool_result (handleSearchModels (\<lambda>_. NaN) noFilters
         (Some \<lparr>data = [claude3], timestamp = 0\<rparr>) (Threw None) 1700000000000)) = Some shown"
    "list_all2 (\<lambda>model entry. fmt_id entry = model_id model \<and> reportsAbsentAsFalse model entry)
        (selectedModels (\<lambda>_. NaN) noFilters [claude3]) shown"
    by blast
  from shown(2) obtain entry where entry: "shown = [entry]" "fmt_id entry = model_id claude3"
      "reportsAbsentAsFalse claude3 entry"
    by (auto simp: sel list_all2_Cons1)
  from entry(3) absent(2) have "\<not> fmt_tools (fmt_capabilities entry)"
    by (simp add: reportsAbsentAsFalse_def)
  with shown(1) entry have search: "\<exists>entry.
      returnedData (tool_result (handleSearchModels (\<lambda>_. NaN) noFilters
         (Some \<lparr>data = [claude3], timestamp = 0\<rparr>) (Threw None) 1700000000000)) = Some [entry] \<and>
      fmt_id entry = model_id claude3 \<and> \<not> fmt_tools (fmt_capabilities entry)"
    by blast
  have "fmt_functions (fmt_capabilities (info_data (modelInfoResponse gpt4o 1700000000000)))"
    by (simp add: modelInfoResponse_def formatModel_def hasCapability_def truthyBool_def
        gpt4o_def)
  with catalog absent vision search show ?thesis by blast
qed

section \<open>Properties of the filters\<close>

text \<open>The lower-casing of the strings of the examples.\<close>

lemma lower_examples:
  "toLowerCase [] = []"
  "toLowerCase ''openai'' = ''openai''"
  "toLowerCase ''OpenAI'' = ''openai''"
  "toLowerCase ''anthropic'' = ''anthropic''"
  "toLowerCase ''gpt'' = ''gpt''"
  "toLowerCase ''GPT'' = ''gpt''"
  "toLowerCase ''openai/gpt-4o'' = ''openai/gpt-4o''"
  "toLowerCase ''OpenAI/gpt-4o'' = ''openai/gpt-4o''"
  "toLowerCase ''anthropic/claude-3'' = ''anthropic/claude-3''"
  "toLowerCase ''GPT-4o'' = ''gpt-4o''"
  "toLowerCase ''Claude 3'' = ''claude 3''"
  "toLowerCase ''A model'' = ''a model''"
  "toLowerCase [CHR 0xC9, CHR ''x''] = [CHR 0xE9, CHR ''x'']"
  by code_simp+

text \<open>
  C7, as stated, fails. With the empty string as provider argument the filter retains a
  model whose provider prefix is not empty; and the query filter retains a model on a
  substring of its \<open>id\<close>, equal neither to the \<open>id\<close> nor to its provider prefix.
\<close>

theorem provider_filter_counterexample:
  "providerFilter (noFilters\<lparr>provider := Some ''''\<rparr>) gpt4o \<and>
   matchesFilters (\<lambda>_. NaN) (noFilters\<lparr>provider := Some ''''\<rparr>) gpt4o \<and>
   toLowerCase (splitSlashFirst (model_id gpt4o)) \<noteq> toLowerCase '''' \<and>
   queryFilter (noFilters\<lparr>query := Some ''gpt''\<rparr>) gpt4o \<and>
   matchesFilters (\<lambda>_. NaN) (noFilters\<lparr>query := Some ''gpt''\<rparr>) gpt4o \<and>
   toLowerCase (model_id gpt4o) \<noteq> toLowerCase ''gpt'' \<and>
   toLowerCase (splitSlashFirst (model_id gpt4o)) \<noteq> toLowerCase ''gpt''"
  by (simp add: matchesFilters_def providerFilter_def queryFilter_def contextFilter_def
      priceFilter_def capabilitiesFilter_def matchesQuery_def truthyStr_def truthyNum_def
      lower_examples splitSlashFirst_def includes_str_def sublist_code noFilters_def gpt4o_def)

lemma toLowerCase_Nil_iff: "toLowerCase s = [] \<longleftrightarrow> s = []"
  by (simp add: toLowerCase_def)

lemma sublist_lower_nonempty:
  "q \<noteq> [] \<Longrightarrow> sublist (toLowerCase q) (toLowerCase s) \<Longrightarrow> s \<noteq> []"
  by (auto simp: toLowerCase_def)

lemma queryFilter_substring:
  assumes "query args = Some q" and "q \<noteq> []"
  shows "queryFilter args m \<longleftrightarrow>
     sublist (toLowerCase q) (toLowerCase (model_id m)) \<or>
     sublist (toLowerCase q) (toLowerCase (name m)) \<or>
     (\<exists>d. description m = Some d \<and> sublist (toLowerCase q) (toLowerCase d))"
proof (cases "description m")
  case None
  with assms show ?thesis
    by (auto simp: queryFilter_def truthyStr_def matchesQuery_def includes_str_def Let_def
        dest: sublist_lower_nonempty)
next
  case (Some d)
  with assms show ?thesis
    by (auto simp: queryFilter_def truthyStr_def matchesQuery_def includes_str_def Let_def
        dest: sublist_lower_nonempty)
qed

text \<open>
  C7, amended. When \<open>handleSearchModels\<close> has a catalog, the \<open>data\<close> list it returns is made
  of the models of the catalog that its filter callback retains, cut at the limit and
  formatted. The callback retains a model exactly when it passes the query, provider,
  context-length, price and capability filters. The provider filter
  keys on the provider prefix of the model's \<open>id\<close> (the part before the first \<open>/\<close>): when
  \<open>args.provider\<close> is absent or empty it retains every model; when it is a non-empty string
  \<open>p\<close>, a model whose provider prefix is in lower case is retained if and only if the prefix
  equals \<open>p\<close> under case normalization. The query filter does not key on equality: when
  \<open>args.query\<close> is absent or empty it retains every model; when it is a non-empty string
  \<open>q\<close>, a model is retained if and only if the lower-cased \<open>q\<close> occurs as a substring of the
  lower-cased \<open>id\<close>, \<open>name\<close> or \<open>description\<close>.
\<close>

theorem provider_filter_keys_on_prefix:
  "(searchesCatalog cached fetched catalog \<longrightarrow>
      returnedData (tool_result (handleSearchModels pf args cached fetched now))
        = Some (map formatModel
                  (slice0 (filter (matchesFilters pf args) catalog) (limitOr10 args)))) \<and>
   (matchesFilters pf args m \<longleftrightarrow>
      queryFilter args m \<and> providerFilter args m \<and> contextFilter args m \<and>
      priceFilter pf args m \<and> capabilitiesFilter args m) \<and>
   (\<not> truthyStr (provider args) \<longrightarrow> providerFilter args m) \<and>
   (provider args = Some p \<and> p \<noteq> [] \<and>
    toLowerCase (splitSlashFirst (model_id m)) = splitSlashFirst (model_id m) \<longrightarrow>
      (providerFilter args m \<longleftrightarrow>
         toLowerCase (splitSlashFirst (model_id m)) = toLowerCase p)) \<and>
   (\<not> truthyStr (query args) \<longrightarrow> queryFilter args m) \<and>
   (query args = Some q \<and> q \<noteq> [] \<longrightarrow>
      (queryFilter args m \<longleftrightarrow>
         sublist (toLowerCase q) (toLowerCase (model_id m)) \<or>
         sublist (toLowerCase q) (toLowerCase (name m)) \<or>
         (\<exists>d. description m = Some d \<and> sublist (toLowerCase q) (toLowerCase d))))"
proof (intro conjI impI)
  assume "searchesCatalog cached fetched catalog"
  then show "returnedData (tool_result (handleSearchModels pf args cached fetched now))
        = Some (map formatModel
                  (slice0 (filter (matchesFilters pf args) catalog) (limitOr10 args)))"
    by (rule returnedData_handleSearchModels)
next
  show "matchesFilters pf args m \<longleftrightarrow>
      queryFilter args m \<and> providerFilter args m \<and> contextFilter args m \<and>
      priceFilter pf args m \<and> capabilitiesFilter args m"
    by (auto simp: matchesFilters_def)
next
  assume "\<not> truthyStr (provider args)"
  then show "providerFilter args m" by (simp add: providerFilter_def)
next
  assume "provider args = Some p \<and> p \<noteq> [] \<and>
    toLowerCase (splitSlashFirst (model_id m)) = splitSlashFirst (model_id m)"
  then show "providerFilter args m \<longleftrightarrow>
         toLowerCase (splitSlashFirst (model_id m)) = toLowerCase p"
    by (auto simp: providerFilter_def truthyStr_def)
next
  assume "\<not> truthyStr (query args)"
  then show "queryFilter args m" by (simp add: queryFilter_def)
next
  assume "query args = Some q \<and> q \<noteq> []"
  then show "queryFilter args m \<longleftrightarrow>
         sublist (toLowerCase q) (toLowerCase (model_id m)) \<or>
         sublist (toLowerCase q) (toLowerCase (name m)) \<or>
         (\<exists>d. description m = Some d \<and> sublist (toLowerCase q) (toLowerCase d))"
    using queryFilter_substring [of args q m] by blast
qed

theorem provider_filter_keys_on_prefix_witness:
  "searchesCatalog None (Returned (Some [gpt4o, claude3])) [gpt4o, claude3] \<and>
   returnedData (tool_result (handleSearchModels (\<lambda>_. NaN)
       (noFilters\<lparr>provider := Some ''OpenAI''\<rparr>) None (Returned (Some [gpt4o, claude3])) 0))
     = Some [formatModel gpt4o] \<and>
   provider (noFilters\<lparr>provider := Some ''OpenAI''\<rparr>) = Some ''OpenAI'' \<and> ''OpenAI'' \<noteq> [] \<and>
   toLowerCase (splitSlashFirst (model_id gpt4o)) = splitSlashFirst (model_id gpt4o) \<and>
   providerFilter (noFilters\<lparr>provider := Some ''OpenAI''\<rparr>) gpt4o \<and>
   toLowerCase (splitSlashFirst (model_id claude3)) = splitSlashFirst (model_id claude3) \<and>
   \<not> providerFilter (noFilters\<lparr>provider := Some ''OpenAI''\<rparr>) claude3 \<and>
   \<not> truthyStr (provider noFilters) \<and>
   providerFilter noFilters claude3 \<and>
   \<not> truthyStr (query noFilters) \<and>
   queryFilter noFilters claude3 \<and>
   query (noFilters\<lparr>query := Some ''GPT''\<rparr>) = Some ''GPT'' \<and> ''GPT'' \<noteq> [] \<and>
   queryFilter (noFilters\<lparr>query := Some ''GPT''\<rparr>) gpt4o \<and>
   \<not> queryFilter (noFilters\<lparr>query := Some ''GPT''\<rparr>) claude3"
proof -
  have lower: "toLowerCase (splitSlashFirst (model_id gpt4o)) = splitSlashFirst (model_id gpt4o)"
    "toLowerCase (splitSlashFirst (model_id claude3)) = splitSlashFirst (model_id claude3)"
    by (simp_all add: lower_examples splitSlashFirst_def gpt4o_def claude3_def)
  have catalog: "searchesCatalog None (Returned (Some [gpt4o, claude3])) [gpt4o, claude3]"
    by (simp add: searchesCatalog_def)
  have keep: "providerFilter (noFilters\<lparr>provider := Some ''OpenAI''\<rparr>) gpt4o"
    using provider_filter_keys_on_prefix [where args = "noFilters\<lparr>provider := Some ''OpenAI''\<rparr>"
        and p = "''OpenAI''" and m = gpt4o]
    by (simp add: lower_examples splitSlashFirst_def gpt4o_def)
  have drop: "\<not> providerFilter (noFilters\<lparr>provider := Some ''OpenAI''\<rparr>) claude3"
    using provider_filter_keys_on_prefix [where args = "noFilters\<lparr>provider := Some ''OpenAI''\<rparr>"
        and p = "''OpenAI''" and m = claude3]
    by (simp add: lower_examples splitSlashFirst_def claude3_def)
  have others: "queryFilter (noFilters\<lparr>provider := Some ''OpenAI''\<rparr>) m"
    "contextFilter (noFilters\<lparr>provider := Some ''OpenAI''\<rparr>) m"
    "priceFilter (\<lambda>_. NaN) (noFilters\<lparr>provider := Some ''OpenAI''\<rparr>) m"
    "capabilitiesFilter (noFilters\<lparr>provider := Some ''OpenAI''\<rparr>) m" for m
    by (simp_all add: queryFilter_def contextFilter_def priceFilter_def capabilitiesFilter_def
        truthyStr_def truthyNum_def noFilters_def)
  have "matchesFilters (\<lambda>_. NaN) (noFilters\<lparr>provider := Some ''OpenAI''\<rparr>) gpt4o"
    "\<not> matchesFilters (\<lambda>_. NaN) (noFilters\<lparr>provider := Some ''OpenAI''\<rparr>) claude3"
    using keep drop others
      provider_filter_keys_on_prefix [where args = "noFilters\<lparr>provider := Some ''OpenAI''\<rparr>"
        and pf = "\<lambda>_. NaN" and m = gpt4o]
      provider_filter_keys_on_prefix [where args = "noFilters\<lparr>provider := Some ''OpenAI''\<rparr>"
        and pf = "\<lambda>_. NaN" and m = claude3]
    by blast+
  then have "returnedData (tool_result (handleSearchModels (\<lambda>_. NaN)
       (noFilters\<lparr>provider := Some ''OpenAI''\<rparr>) None (Returned (Some [gpt4o, claude3])) 0))
     = Some [formatModel gpt4o]"
    using catalog provider_filter_keys_on_prefix
      [where args = "noFilters\<lparr>provider := Some ''OpenAI''\<rparr>" and pf = "\<lambda>_. NaN"
         and cached = None and fetched = "Returned (Some [gpt4o, claude3])"
         and catalog = "[gpt4o, claude3]" and now = 0]
    by (simp add: slice0_def truncNum_def limitOr10_def truthyNum_def noFilters_def)
  moreover note catalog keep drop
  moreover have nofilter: "\<not> truthyStr (provider noFilters)" "\<not> truthyStr (query noFilters)"
    by (simp_all add: truthyStr_def noFilters_def)
  moreover from nofilter have "providerFilter noFilters claude3" "queryFilter noFilters claude3"
    using provider_filter_keys_on_prefix [where args = noFilters and m = claude3] by blast+
  moreover have "queryFilter (noFilters\<lparr>query := Some ''GPT''\<rparr>) gpt4o"
    using provider_filter_keys_on_prefix [where args = "noFilters\<lparr>query := Some ''GPT''\<rparr>"
        and q = "''GPT''" and m = gpt4o]
    by (simp add: lower_examples gpt4o_def sublist_code)
  moreover have "\<not> queryFilter (noFilters\<lparr>query := Some ''GPT''\<rparr>) claude3"
    using provider_filter_keys_on_prefix [where args = "noFilters\<lparr>query := Some ''GPT''\<rparr>"
        and q = "''GPT''" and m = claude3]
    by (simp add: lower_examples claude3_def sublist_code)
  ultimately show ?thesis using lower by simp
qed

text \<open>
  For a provider prefix with upper-case letters the filter compares the prefix as it stands
  with the lower-cased argument: such a model is dropped whatever the argument's case. The
  query filter lower-cases both sides.
\<close>

lemma provider_filter_mixed_case:
  "\<not> providerFilter (noFilters\<lparr>provider := Some ''openai''\<rparr>)
       (gpt4o\<lparr>model_id := ''OpenAI/gpt-4o''\<rparr>) \<and>
   \<not> providerFilter (noFilters\<lparr>provider := Some ''OpenAI''\<rparr>)
       (gpt4o\<lparr>model_id := ''OpenAI/gpt-4o''\<rparr>) \<and>
   \<not> providerFilter (noFilters\<lparr>provider := Some [CHR 0xC9, CHR ''x'']\<rparr>)
       (gpt4o\<lparr>model_id := [CHR 0xC9, CHR ''x'', CHR ''/'', CHR ''m'']\<rparr>) \<and>
   queryFilter (noFilters\<lparr>query := Some ''openai''\<rparr>) (gpt4o\<lparr>model_id := ''OpenAI/gpt-4o''\<rparr>)"
  by (simp add: providerFilter_def queryFilter_def matchesQuery_def truthyStr_def lower_examples
      splitSlashFirst_def includes_str_def sublist_code noFilters_def gpt4o_def)

section \<open>Properties of the model cache\<close>








lemma lookupModel_Some: "lookupModel i models = Some m \<Longrightarrow> model_id m = i \<and> m \<in> set models"
  by (auto simp: lookupModel_def find_Some_iff)

lemma getModelInfo_found: "found_model (getModelInfo cache fetched now i) = Some m \<Longrightarrow> model_id m = i"
  by (auto simp: getModelInfo_def split: option.splits sum.splits dest: lookupModel_Some)

lemma isError_handleValidateModel:
  "isError (handleValidateModel model outcome) \<longleftrightarrow> outcome \<noteq> Returned True"
  by (cases outcome) (auto simp: handleValidateModel_def errorResult_def okResult_def)

text \<open>
  C1. \<open>validateModel(id)\<close> is true if and only if \<open>getModelInfo(id)\<close>, on the same cache and
  registry, gives a descriptor whose \<open>id\<close> is exactly that string; and
  \<open>handleValidateModel\<close> gives a result that is not an error exactly when the awaited
  \<open>validateModel\<close> returned true, an \<open>isError\<close> result when it returned false or threw.
\<close>

theorem validateModel_iff_getModelInfo:
  "(fst (validateModel cache fetched now i) \<longleftrightarrow>
      (\<exists>m. found_model (getModelInfo cache fetched now i) = Some m \<and> model_id m = i)) \<and>
   (\<not> isError (handleValidateModel i (Returned (fst (validateModel cache fetched now i)))) \<longleftrightarrow>
      fst (validateModel cache fetched now i)) \<and>
   (\<not> isError (handleValidateModel i outcome) \<longleftrightarrow> outcome = Returned True)"
proof (intro conjI)
  show "fst (validateModel cache fetched now i) \<longleftrightarrow>
      (\<exists>m. found_model (getModelInfo cache fetched now i) = Some m \<and> model_id m = i)"
    using getModelInfo_found [of cache fetched now i]
    by (auto simp: validateModel_def Let_def)
  show "\<not> isError (handleValidateModel i (Returned (fst (validateModel cache fetched now i)))) \<longleftrightarrow>
      fst (validateModel cache fetched now i)"
    by (simp add: isError_handleValidateModel)
  show "\<not> isError (handleValidateModel i outcome) \<longleftrightarrow> outcome = Returned True"
    by (simp add: isError_handleValidateModel)
qed

theorem validateModel_iff_getModelInfo_witness:
  "found_model (getModelInfo emptyCache (Inr \<lparr>data = [gpt4o], timestamp = 1000\<rparr>) 1000
      ''openai/gpt-4o'') = Some gpt4o \<and>
   fst (validateModel emptyCache (Inr \<lparr>data = [gpt4o], timestamp = 1000\<rparr>) 1000
      ''openai/gpt-4o'') \<and>
   \<not> isError (handleValidateModel ''openai/gpt-4o''
        (Returned (fst (validateModel emptyCache (Inr \<lparr>data = [gpt4o], timestamp = 1000\<rparr>) 1000
           ''openai/gpt-4o''))))"
proof -
  let ?f = "Inr \<lparr>data = [gpt4o], timestamp = 1000\<rparr> :: FetchError + CachedModelResponse"
  have found: "found_model (getModelInfo emptyCache ?f 1000 ''openai/gpt-4o'') = Some gpt4o"
    by (simp add: getModelInfo_def getCachedModels_def lookupModel_def emptyCache_def gpt4o_def)
  have "model_id gpt4o = ''openai/gpt-4o''" by (simp add: gpt4o_def)
  with validateModel_iff_getModelInfo [of emptyCache ?f 1000 "''openai/gpt-4o''"] found
  show ?thesis by simp
qed

end
